theory Spec2Isabelle
  imports Complex_Main
begin

section \<open>The Slack processor: values, library, state\<close>

text \<open>
  The processor (\<^verbatim>\<open>src/slack_processor/application.py\<close>) handles dynamically typed
  values: tag values, the connection record and the agent record come from JSON.
  A Python float is kept as the exact number it denotes, or one of the three special
  values; comparisons of floats are exact, so nothing is lost for \<^verbatim>\<open>value > upper_limit\<close>.
\<close>

datatype pyfloat = Fin rat | PosInf | NegInf | NaN

datatype pyval =
    PNone
  | PBool bool
  | PInt int
  | PFloat pyfloat
  | PStr string
  | PList "pyval list"
  | PDict "(string \<times> pyval) list"

datatype exn =
    TypeError
  | ValueError
  | KeyError string
  | IndexError
  | AttributeError
  | OverflowError
  | OtherError string

text \<open>
  A \<^verbatim>\<open>datetime\<close> is a number of microseconds since the epoch; it is aware (UTC
  instant) or naive. A \<^verbatim>\<open>timedelta\<close> is an exact number of microseconds.
\<close>

datatype pdatetime = Aware int | Naive int

text \<open>
  The functions of the Python library whose results the processor only passes on are
  parameters: \<^verbatim>\<open>str()\<close> on a value that is not a string, \<^verbatim>\<open>float()\<close> on a
  string and on an integer, float addition, \<^verbatim>\<open>datetime.fromisoformat\<close>,
  \<^verbatim>\<open>datetime.fromtimestamp(x, timezone.utc)\<close>, \<^verbatim>\<open>isoformat()\<close> of an aware
  UTC datetime, \<^verbatim>\<open>json.dumps(data, indent=2, default=str)\<close>, and the rendering of a
  replacement field that has a conversion, a format spec, an attribute or an index.
\<close>

record pylib =
  str_other :: "pyval \<Rightarrow> string"
  float_of_str :: "string \<Rightarrow> exn + pyfloat"
  float_of_int :: "int \<Rightarrow> exn + pyfloat"
  float_add :: "pyfloat \<Rightarrow> pyfloat \<Rightarrow> pyfloat"
  fromisoformat :: "string \<Rightarrow> exn + pdatetime"
  fromtimestamp :: "pyval \<Rightarrow> exn + int"
  isoformat :: "int \<Rightarrow> string"
  json_dumps :: "pyval \<Rightarrow> string"
  format_field :: "string \<Rightarrow> (string \<times> pyval) list \<Rightarrow> exn + string"

fun truthy :: "pyval \<Rightarrow> bool" where
  "truthy PNone = False"
| "truthy (PBool b) = b"
| "truthy (PInt n) = (n \<noteq> 0)"
| "truthy (PFloat f) = (f \<noteq> Fin 0)"
| "truthy (PStr x) = (x \<noteq> [])"
| "truthy (PList xs) = (xs \<noteq> [])"
| "truthy (PDict kv) = (kv \<noteq> [])"

definition py_str :: "pylib \<Rightarrow> pyval \<Rightarrow> string" where
  "py_str lib v = (case v of PStr x \<Rightarrow> x | _ \<Rightarrow> str_other lib v)"

text \<open>\<^verbatim>\<open>d.get(k)\<close> on a dictionary: \<^verbatim>\<open>None\<close> when the key is missing.\<close>

definition dict_get :: "(string \<times> pyval) list \<Rightarrow> string \<Rightarrow> pyval" where
  "dict_get kv k = (case map_of kv k of None \<Rightarrow> PNone | Some v \<Rightarrow> v)"

text \<open>\<^verbatim>\<open>float(value)\<close>.\<close>

definition py_float :: "pylib \<Rightarrow> pyval \<Rightarrow> exn + pyfloat" where
  "py_float lib v =
     (case v of
        PBool b \<Rightarrow> Inr (Fin (if b then 1 else 0))
      | PInt n \<Rightarrow> float_of_int lib n
      | PFloat f \<Rightarrow> Inr f
      | PStr x \<Rightarrow> float_of_str lib x
      | _ \<Rightarrow> Inl TypeError)"

text \<open>The number a value denotes in a comparison with a float, if it is a number.\<close>

definition as_number :: "pyval \<Rightarrow> pyfloat option" where
  "as_number v =
     (case v of
        PBool b \<Rightarrow> Some (Fin (if b then 1 else 0))
      | PInt n \<Rightarrow> Some (Fin (of_int n))
      | PFloat f \<Rightarrow> Some f
      | _ \<Rightarrow> None)"

fun float_less :: "pyfloat \<Rightarrow> pyfloat \<Rightarrow> bool" where
  "float_less NaN _ = False"
| "float_less _ NaN = False"
| "float_less (Fin a) (Fin b) = (a < b)"
| "float_less (Fin a) PosInf = True"
| "float_less (Fin a) NegInf = False"
| "float_less PosInf _ = False"
| "float_less NegInf NegInf = False"
| "float_less NegInf _ = True"

text \<open>\<^verbatim>\<open>value > limit\<close> and \<^verbatim>\<open>value < limit\<close> for a float \<open>value\<close>.\<close>

definition py_gt :: "pyfloat \<Rightarrow> pyval \<Rightarrow> exn + bool" where
  "py_gt x limit = (case as_number limit of None \<Rightarrow> Inl TypeError | Some l \<Rightarrow> Inr (float_less l x))"

definition py_lt :: "pyfloat \<Rightarrow> pyval \<Rightarrow> exn + bool" where
  "py_lt x limit = (case as_number limit of None \<Rightarrow> Inl TypeError | Some l \<Rightarrow> Inr (float_less x l))"

text \<open>\<^verbatim>\<open>current + 1\<close> of \<^verbatim>\<open>_increment_stat\<close>.\<close>

definition py_add1 :: "pylib \<Rightarrow> pyval \<Rightarrow> exn + pyval" where
  "py_add1 lib v =
     (case v of
        PBool b \<Rightarrow> Inr (PInt ((if b then 1 else 0) + 1))
      | PInt n \<Rightarrow> Inr (PInt (n + 1))
      | PFloat f \<Rightarrow> Inr (PFloat (float_add lib f (Fin 1)))
      | _ \<Rightarrow> Inl TypeError)"

subsection \<open>Timestamps\<close>

text \<open>\<^verbatim>\<open>x.replace("Z", "+00:00")\<close>.\<close>

definition replace_Z :: "string \<Rightarrow> string" where
  "replace_Z x = concat (map (\<lambda>c. if c = CHR ''Z'' then ''+00:00'' else [c]) x)"

text \<open>
  The pattern of lines 118-121, 143-146 and 209-212: a string goes through
  \<^verbatim>\<open>fromisoformat\<close>, anything else through \<^verbatim>\<open>fromtimestamp\<close>.
\<close>

definition parse_time :: "pylib \<Rightarrow> pyval \<Rightarrow> exn + pdatetime" where
  "parse_time lib v =
     (case v of
        PStr x \<Rightarrow> fromisoformat lib (replace_Z x)
      | _ \<Rightarrow> (case fromtimestamp lib v of Inl e \<Rightarrow> Inl e | Inr t \<Rightarrow> Inr (Aware t)))"

text \<open>
  \<^verbatim>\<open>datetime.now(timezone.utc) - dt\<close>, in microseconds: subtracting a naive datetime
  from an aware one raises \<^verbatim>\<open>TypeError\<close>.
\<close>

definition elapsed_since :: "pylib \<Rightarrow> int \<Rightarrow> pyval \<Rightarrow> exn + int" where
  "elapsed_since lib now_us v =
     (case parse_time lib v of
        Inl e \<Rightarrow> Inl e
      | Inr (Aware t) \<Rightarrow> Inr (now_us - t)
      | Inr (Naive t) \<Rightarrow> Inl TypeError)"

text \<open>
  \<^verbatim>\<open>delta.total_seconds() / 60\<close> compared with a whole number of minutes. Python
  makes the two divisions in floating point; the model compares the exact duration with
  the exact number of microseconds in \<open>m\<close> minutes. Rounding is monotone and exact at
  whole minutes, and a duration one microsecond short of \<open>m\<close> minutes stays short of it
  after both roundings for every \<open>m\<close> below ten million (nineteen years), so the two
  agree far beyond the configured bounds of 1440 minutes.
\<close>

definition minutes :: "int \<Rightarrow> int" where
  "minutes m = m * 60000000"

text \<open>\<^verbatim>\<open>int(x)\<close> truncates towards zero.\<close>

definition trunc_div :: "int \<Rightarrow> int \<Rightarrow> int" where
  "trunc_div a b = (if 0 \<le> a then a div b else - ((- a) div b))"

subsection \<open>\<^verbatim>\<open>str.format\<close> with keyword arguments only\<close>

definition plain_name :: "string \<Rightarrow> bool" where
  "plain_name f \<longleftrightarrow>
     f \<noteq> [] \<and> \<not> list_all (\<lambda>c. c \<in> set ''0123456789'') f
     \<and> list_all (\<lambda>c. c \<notin> set ''!:.[{}'') f"

text \<open>
  One replacement field. An empty field name is automatic numbering, which has no
  positional argument to take: \<^verbatim>\<open>IndexError\<close>. A plain name is looked up among the
  keyword arguments: \<^verbatim>\<open>KeyError\<close> when it is missing, \<^verbatim>\<open>str\<close> of the value
  otherwise. Everything else is the library's.
\<close>

definition render_field :: "pylib \<Rightarrow> (string \<times> pyval) list \<Rightarrow> string \<Rightarrow> exn + string" where
  "render_field lib kw f =
     (if f = [] then Inl IndexError
      else if plain_name f then
        (case map_of kw f of None \<Rightarrow> Inl (KeyError f) | Some v \<Rightarrow> Inr (py_str lib v))
      else format_field lib f kw)"

datatype fstate = Txt | Opened | Closed | Fld nat string

text \<open>
  The scanner reads the template from left to right, and renders each field when it
  closes, so the first error in reading order is the one raised.
\<close>

fun fmt :: "pylib \<Rightarrow> (string \<times> pyval) list \<Rightarrow> fstate \<Rightarrow> string \<Rightarrow> string \<Rightarrow> exn + string" where
  "fmt lib kw Txt out [] = Inr out"
| "fmt lib kw Opened out [] = Inl ValueError"
| "fmt lib kw Closed out [] = Inl ValueError"
| "fmt lib kw (Fld d acc) out [] = Inl ValueError"
| "fmt lib kw Txt out (c # cs) =
     (if c = CHR ''{'' then fmt lib kw Opened out cs
      else if c = CHR ''}'' then fmt lib kw Closed out cs
      else fmt lib kw Txt (out @ [c]) cs)"
| "fmt lib kw Opened out (c # cs) =
     (if c = CHR ''{'' then fmt lib kw Txt (out @ ''{'') cs
      else if c = CHR ''}'' then
        (case render_field lib kw [] of Inl e \<Rightarrow> Inl e | Inr t \<Rightarrow> fmt lib kw Txt (out @ t) cs)
      else fmt lib kw (Fld 0 [c]) out cs)"
| "fmt lib kw Closed out (c # cs) =
     (if c = CHR ''}'' then fmt lib kw Txt (out @ ''}'') cs else Inl ValueError)"
| "fmt lib kw (Fld d acc) out (c # cs) =
     (if c = CHR ''}'' then
        (if d = 0 then
           (case render_field lib kw acc of Inl e \<Rightarrow> Inl e | Inr t \<Rightarrow> fmt lib kw Txt (out @ t) cs)
         else fmt lib kw (Fld (d - 1) (acc @ [c])) out cs)
      else if c = CHR ''{'' then fmt lib kw (Fld (d + 1) (acc @ [c])) out cs
      else fmt lib kw (Fld d (acc @ [c])) out cs)"

definition py_format :: "pylib \<Rightarrow> string \<Rightarrow> (string \<times> pyval) list \<Rightarrow> exn + string" where
  "py_format lib template kw = fmt lib kw Txt [] template"

subsection \<open>Configuration, environment, state\<close>

text \<open>One element of \<^verbatim>\<open>tag_thresholds\<close>; \<open>None\<close> is a key that \<^verbatim>\<open>.get\<close> does not find.\<close>

record threshold_config =
  tag_name :: "string option"
  upper_limit :: pyval
  lower_limit :: pyval
  alert_message :: "string option"
  cooldown_minutes :: "int option"

record config =
  slack_webhook_url :: "string option"
  slack_channel :: string
  slack_username :: string
  channel_alerts_enabled :: bool
  channel_message_template :: string
  offline_alerts_enabled :: bool
  offline_threshold_minutes :: int
  offline_reminder_interval_minutes :: int
  threshold_alerts_enabled :: bool
  tag_thresholds :: "threshold_config list"
  include_device_name :: bool
  request_timeout_seconds :: int

text \<open>The JSON body of one \<^verbatim>\<open>requests.post\<close>, with the timeout it was made under.\<close>

record payload =
  username :: string
  att_color :: string
  att_title :: string
  att_text :: string
  att_footer :: string
  att_ts :: int
  channel :: "string option"
  timeout :: int

datatype response = Status int | Timeout | RequestException string

text \<open>
  What one invocation finds outside: the clock, the agent's identifier as a string, the
  answers of the API, and the answer of the webhook to each post. The clock is read once
  per invocation: \<^verbatim>\<open>_check_tag_thresholds\<close> does so itself (line 182), while
  \<^verbatim>\<open>_check_offline_status\<close>, \<^verbatim>\<open>_send_slack_message\<close> and the two bookkeeping
  methods call \<^verbatim>\<open>datetime.now\<close> again where they need it, instants later. The tag
  store is taken to answer every \<^verbatim>\<open>get_tag\<close> and \<^verbatim>\<open>set_tag\<close>.
\<close>

record world =
  now :: int
  agent_id :: string
  get_agent_connection :: "exn + pyval"
  get_agent :: "exn + pyval"
  tag_values_aggregate :: "exn + pyval"
  http_post :: "payload \<Rightarrow> response"

text \<open>The persisted tags of the device, and the posts made so far.\<close>

record state =
  tags :: "string \<Rightarrow> pyval option"
  posts :: "payload list"

definition get_tag :: "state \<Rightarrow> string \<Rightarrow> pyval \<Rightarrow> pyval" where
  "get_tag s k dflt = (case tags s k of None \<Rightarrow> dflt | Some v \<Rightarrow> v)"

definition set_tag :: "string \<Rightarrow> pyval \<Rightarrow> state \<Rightarrow> state" where
  "set_tag k v s = s\<lparr>tags := (tags s)(k \<mapsto> v)\<rparr>"

section \<open>The operations of \<^verbatim>\<open>SlackProcessor\<close>\<close>

text \<open>
  A method returns the state it leaves behind and the exception that left it, if one
  did: what was written before a \<^verbatim>\<open>raise\<close> stays written.
\<close>

type_synonym outcome = "state \<times> exn option"

definition update_error :: "pylib \<Rightarrow> world \<Rightarrow> string \<Rightarrow> state \<Rightarrow> state" where
  "update_error lib w err s =
     set_tag ''last_error_at'' (PStr (isoformat lib (now w))) (set_tag ''last_error'' (PStr err) s)"

definition increment_stat :: "pylib \<Rightarrow> world \<Rightarrow> string \<Rightarrow> state \<Rightarrow> state" where
  "increment_stat lib w stat_name s =
     (case py_add1 lib (get_tag s stat_name (PInt 0)) of
        Inl e \<Rightarrow> s
      | Inr v \<Rightarrow>
          set_tag (stat_name @ ''_last'') (PStr (isoformat lib (now w))) (set_tag stat_name v s))"

definition get_device_name :: "pylib \<Rightarrow> config \<Rightarrow> world \<Rightarrow> pyval" where
  "get_device_name lib cfg w =
     (if \<not> include_device_name cfg then PStr ''Unknown Device''
      else
        (case get_agent w of
           Inr (PDict info) \<Rightarrow>
             (case map_of info ''name'' of
                Some v \<Rightarrow> v
              | None \<Rightarrow>
                  (case map_of info ''display_name'' of
                     Some v \<Rightarrow> v
                   | None \<Rightarrow> PStr (agent_id w)))
         | _ \<Rightarrow> PStr (agent_id w)))"

definition webhook_set :: "config \<Rightarrow> bool" where
  "webhook_set cfg = (case slack_webhook_url cfg of None \<Rightarrow> False | Some url \<Rightarrow> url \<noteq> [])"

definition make_payload :: "config \<Rightarrow> world \<Rightarrow> string \<Rightarrow> string \<Rightarrow> string \<Rightarrow> payload" where
  "make_payload cfg w txt ttl col =
     \<lparr>username = (if slack_username cfg = [] then ''Doover Alerts'' else slack_username cfg),
      att_color = col,
      att_title = ttl,
      att_text = txt,
      att_footer = ''Doover Slack Processor'',
      att_ts = trunc_div (now w) 1000000,
      channel = (if slack_channel cfg = [] then None else Some (slack_channel cfg)),
      timeout = (if request_timeout_seconds cfg = 0 then 30 else request_timeout_seconds cfg)\<rparr>"

definition send_slack_message ::
  "pylib \<Rightarrow> config \<Rightarrow> world \<Rightarrow> string \<Rightarrow> string \<Rightarrow> string \<Rightarrow> state \<Rightarrow> state" where
  "send_slack_message lib cfg w txt ttl col s =
     (if \<not> webhook_set cfg then s
      else
        (let p = make_payload cfg w txt ttl col;
             s' = s\<lparr>posts := posts s @ [p]\<rparr>
         in case http_post w p of
              Status code \<Rightarrow>
                (if code = 200 then s'
                 else update_error lib w (''Slack API error: '' @ py_str lib (PInt code)) s')
            | Timeout \<Rightarrow> update_error lib w ''Slack request timeout'' s'
            | RequestException msg \<Rightarrow> update_error lib w (''Slack request failed: '' @ msg) s'))"

subsection \<open>\<^verbatim>\<open>on_message_create\<close>\<close>

text \<open>Lines 52-59 and 64-66: the keyword arguments of \<^verbatim>\<open>template.format\<close>.\<close>

definition channel_kwargs :: "pylib \<Rightarrow> config \<Rightarrow> world \<Rightarrow> string \<Rightarrow> pyval \<Rightarrow> (string \<times> pyval) list" where
  "channel_kwargs lib cfg w channel_name data =
     (let device_name = get_device_name lib cfg w;
          data_str = (case data of PDict kv \<Rightarrow> json_dumps lib data | _ \<Rightarrow> py_str lib data)
      in [(''channel'', PStr channel_name), (''data'', PStr data_str), (''device'', device_name)])"

definition on_message_create :: "pylib \<Rightarrow> config \<Rightarrow> world \<Rightarrow> string \<Rightarrow> pyval \<Rightarrow> state \<Rightarrow> outcome" where
  "on_message_create lib cfg w channel_name data s =
     (if \<not> channel_alerts_enabled cfg then (s, None)
      else if \<not> webhook_set cfg then (s, None)
      else
        (case py_format lib (channel_message_template cfg)
                (channel_kwargs lib cfg w channel_name data) of
              Inl e \<Rightarrow> (s, Some e)
            | Inr message \<Rightarrow>
                (increment_stat lib w ''channel_alerts_sent''
                   (send_slack_message lib cfg w message (''Channel Alert: '' @ channel_name)
                      ''#36a64f'' s),
                 None)))"

subsection \<open>\<^verbatim>\<open>_check_offline_status\<close>\<close>

text \<open>
  Lines 117-124: the offline duration, when \<^verbatim>\<open>last_online\<close> is truthy; \<open>None\<close>
  when it is not, and then the threshold is not checked.
\<close>

definition offline_duration :: "pylib \<Rightarrow> world \<Rightarrow> pyval \<Rightarrow> exn + int option" where
  "offline_duration lib w last_online =
     (if truthy last_online then
        (case elapsed_since lib (now w) last_online of Inl e \<Rightarrow> Inl e | Inr d \<Rightarrow> Inr (Some d))
      else Inr None)"

text \<open>Lines 154-162: the post, the two tags, the counter.\<close>

definition send_offline_alert :: "pylib \<Rightarrow> config \<Rightarrow> world \<Rightarrow> string \<Rightarrow> state \<Rightarrow> state" where
  "send_offline_alert lib cfg w message s =
     increment_stat lib w ''offline_alerts_sent''
       (set_tag ''last_offline_reminder'' (PStr (isoformat lib (now w)))
          (set_tag ''offline_alert_sent'' (PBool True)
             (send_slack_message lib cfg w message ''Device Offline Alert'' ''#ff0000'' s)))"

text \<open>Lines 130-162, with the offline duration in hand.\<close>

definition offline_alert_stage ::
  "pylib \<Rightarrow> config \<Rightarrow> world \<Rightarrow> int option \<Rightarrow> state \<Rightarrow> outcome" where
  "offline_alert_stage lib cfg w duration s =
     (let alert_sent = get_tag s ''offline_alert_sent'' (PBool False);
          last_reminder = get_tag s ''last_offline_reminder'' PNone;
          device_name = get_device_name lib cfg w;
          reminder_interval = offline_reminder_interval_minutes cfg
      in if \<not> truthy alert_sent then
           (send_offline_alert lib cfg w
              (''Device *'' @ py_str lib device_name @ ''* has gone offline'') s, None)
         else if reminder_interval > 0 \<and> truthy last_reminder then
           (case elapsed_since lib (now w) last_reminder of
              Inl e \<Rightarrow> (s, Some e)
            | Inr since_reminder \<Rightarrow>
                (if since_reminder \<ge> minutes reminder_interval then
                   (let offline_mins =
                          (case duration of
                             Some d \<Rightarrow> py_str lib (PInt (trunc_div d 60000000))
                           | None \<Rightarrow> ''unknown'')
                    in (send_offline_alert lib cfg w
                          (''Device *'' @ py_str lib device_name @ ''* is still offline (duration: ''
                             @ offline_mins @ '' minutes)'') s, None))
                 else (s, None)))
         else (s, None))"

definition check_offline_status :: "pylib \<Rightarrow> config \<Rightarrow> world \<Rightarrow> state \<Rightarrow> outcome" where
  "check_offline_status lib cfg w s =
     (case get_agent_connection w of
        Inr (PDict connection_info) \<Rightarrow>
          (let last_online = dict_get connection_info ''online_at'';
               is_online = (dict_get connection_info ''determination'' = PStr ''online'')
           in if is_online then
                (set_tag ''last_offline_reminder'' PNone
                   (set_tag ''offline_alert_sent'' (PBool False) s), None)
              else
                (case offline_duration lib w last_online of
                   Inl e \<Rightarrow> (s, Some e)
                 | Inr duration \<Rightarrow>
                     (if (case duration of
                            Some d \<Rightarrow> d < minutes (offline_threshold_minutes cfg)
                          | None \<Rightarrow> False)
                      then (s, None)
                      else offline_alert_stage lib cfg w duration s)))
      | _ \<Rightarrow> (s, None))"

subsection \<open>\<^verbatim>\<open>_check_tag_thresholds\<close>\<close>

text \<open>Lines 206-216: is the rule in its cooldown period?\<close>

definition in_cooldown :: "pylib \<Rightarrow> world \<Rightarrow> string \<Rightarrow> int \<Rightarrow> state \<Rightarrow> exn + bool" where
  "in_cooldown lib w cooldown_key cooldown s =
     (let last_alert = get_tag s cooldown_key PNone
      in if truthy last_alert then
           (case elapsed_since lib (now w) last_alert of
              Inl e \<Rightarrow> Inl e
            | Inr d \<Rightarrow> Inr (d < minutes cooldown))
         else Inr False)"

text \<open>The keyword arguments of the two \<^verbatim>\<open>message_template.format\<close> calls.\<close>

definition alert_kwargs :: "string \<Rightarrow> pyfloat \<Rightarrow> string \<Rightarrow> pyval \<Rightarrow> (string \<times> pyval) list" where
  "alert_kwargs tn x limit device_name =
     [(''tag'', PStr tn), (''value'', PFloat x), (''limit'', PStr limit), (''device'', device_name)]"

text \<open>Lines 220-232 and 237-249: format, post, cooldown tag, counter.\<close>

definition threshold_alert ::
  "pylib \<Rightarrow> config \<Rightarrow> world \<Rightarrow> string \<Rightarrow> string \<Rightarrow> pyfloat \<Rightarrow> string \<Rightarrow> pyval \<Rightarrow>
   string \<Rightarrow> string \<Rightarrow> state \<Rightarrow> outcome" where
  "threshold_alert lib cfg w message_template tn x limit device_name ttl col s =
     (case py_format lib message_template (alert_kwargs tn x limit device_name) of
        Inl e \<Rightarrow> (s, Some e)
      | Inr message \<Rightarrow>
          (increment_stat lib w ''threshold_alerts_sent''
             (set_tag (''threshold_cooldown_'' @ tn) (PStr (isoformat lib (now w)))
                (send_slack_message lib cfg w message ttl col s)),
           None))"

text \<open>
  Lines 202-203: \<^verbatim>\<open>threshold_config.get("alert_message", ...)\<close> and
  \<^verbatim>\<open>threshold_config.get("cooldown_minutes", 15)\<close>.
\<close>

definition rule_template :: "threshold_config \<Rightarrow> string" where
  "rule_template r =
     (case alert_message r of
        None \<Rightarrow> ''{tag} is {value} (threshold: {limit}) on {device}''
      | Some t \<Rightarrow> t)"

definition rule_cooldown :: "threshold_config \<Rightarrow> int" where
  "rule_cooldown r = (case cooldown_minutes r of None \<Rightarrow> 15 | Some c \<Rightarrow> c)"

text \<open>Lines 200-249: the limits of one rule, for the numeric value \<open>x\<close> of its tag.\<close>

definition check_limits ::
  "pylib \<Rightarrow> config \<Rightarrow> world \<Rightarrow> pyval \<Rightarrow> threshold_config \<Rightarrow> string \<Rightarrow> pyfloat \<Rightarrow> state \<Rightarrow> outcome" where
  "check_limits lib cfg w device_name r tn x s =
     (let message_template = rule_template r;
          cooldown = rule_cooldown r
      in case in_cooldown lib w (''threshold_cooldown_'' @ tn) cooldown s of
           Inl e \<Rightarrow> (s, Some e)
         | Inr True \<Rightarrow> (s, None)
         | Inr False \<Rightarrow>
             (case (if upper_limit r = PNone then Inr False else py_gt x (upper_limit r)) of
                Inl e \<Rightarrow> (s, Some e)
              | Inr True \<Rightarrow>
                  threshold_alert lib cfg w message_template tn x
                    (''>'' @ py_str lib (upper_limit r)) device_name
                    ''Threshold Alert: High Value'' ''#ff9900'' s
              | Inr False \<Rightarrow>
                  (case (if lower_limit r = PNone then Inr False else py_lt x (lower_limit r)) of
                     Inl e \<Rightarrow> (s, Some e)
                   | Inr True \<Rightarrow>
                       threshold_alert lib cfg w message_template tn x
                         (''<'' @ py_str lib (lower_limit r)) device_name
                         ''Threshold Alert: Low Value'' ''#0066ff'' s
                   | Inr False \<Rightarrow> (s, None))))"

text \<open>
  The body of the loop, lines 185-249. \<^verbatim>\<open>tag_values.get\<close> on a value that is not a
  dictionary raises \<^verbatim>\<open>AttributeError\<close>; of the errors of \<^verbatim>\<open>float\<close> only
  \<^verbatim>\<open>TypeError\<close> and \<^verbatim>\<open>ValueError\<close> are caught.
\<close>

definition threshold_rule ::
  "pylib \<Rightarrow> config \<Rightarrow> world \<Rightarrow> pyval \<Rightarrow> pyval \<Rightarrow> threshold_config \<Rightarrow> state \<Rightarrow> outcome" where
  "threshold_rule lib cfg w tag_values device_name r s =
     (case tag_name r of
        None \<Rightarrow> (s, None)
      | Some tn \<Rightarrow>
          (if tn = [] then (s, None)
           else
             (case tag_values of
                PDict kv \<Rightarrow>
                  (let v = dict_get kv tn
                   in if v = PNone then (s, None)
                      else
                        (case py_float lib v of
                           Inl e \<Rightarrow>
                             (if e = TypeError \<or> e = ValueError then (s, None) else (s, Some e))
                         | Inr x \<Rightarrow> check_limits lib cfg w device_name r tn x s))
              | _ \<Rightarrow> (s, Some AttributeError))))"

fun thresholds_loop ::
  "pylib \<Rightarrow> config \<Rightarrow> world \<Rightarrow> pyval \<Rightarrow> pyval \<Rightarrow> threshold_config list \<Rightarrow> state \<Rightarrow> outcome" where
  "thresholds_loop lib cfg w tag_values device_name [] s = (s, None)"
| "thresholds_loop lib cfg w tag_values device_name (r # rs) s =
     (case threshold_rule lib cfg w tag_values device_name r s of
        (s', Some e) \<Rightarrow> (s', Some e)
      | (s', None) \<Rightarrow> thresholds_loop lib cfg w tag_values device_name rs s')"

definition check_tag_thresholds :: "pylib \<Rightarrow> config \<Rightarrow> world \<Rightarrow> state \<Rightarrow> outcome" where
  "check_tag_thresholds lib cfg w s =
     (if tag_thresholds cfg = [] then (s, None)
      else
        (case tag_values_aggregate w of
           Inl e \<Rightarrow> (s, None)
         | Inr agg \<Rightarrow>
             thresholds_loop lib cfg w (if truthy agg then agg else PDict [])
               (get_device_name lib cfg w) (tag_thresholds cfg) s))"

subsection \<open>\<^verbatim>\<open>on_schedule\<close>\<close>

definition on_schedule :: "pylib \<Rightarrow> config \<Rightarrow> world \<Rightarrow> state \<Rightarrow> outcome" where
  "on_schedule lib cfg w s =
     (if \<not> webhook_set cfg then (s, None)
      else
        (case (if offline_alerts_enabled cfg then check_offline_status lib cfg w s else (s, None)) of
           (s1, Some e) \<Rightarrow> (s1, Some e)
         | (s1, None) \<Rightarrow>
             (if threshold_alerts_enabled cfg then check_tag_thresholds lib cfg w s1
              else (s1, None))))"

subsection \<open>What the claims speak of\<close>

text \<open>The offline alerts among the posts made: those titled \<^verbatim>\<open>Device Offline Alert\<close>.\<close>

definition offline_posts :: "state \<Rightarrow> payload list" where
  "offline_posts s = filter (\<lambda>p. att_title p = ''Device Offline Alert'') (posts s)"


text \<open>The two tags of the offline state.\<close>

definition offline_key :: "string \<Rightarrow> bool" where
  "offline_key k \<longleftrightarrow> k = ''offline_alert_sent'' \<or> k = ''last_offline_reminder''"

text \<open>
  The connection lookup fails when the API call raises, or when what it returns has no
  \<^verbatim>\<open>.get\<close>: both end in the \<^verbatim>\<open>except\<close> clause of line 105.
\<close>

definition connection_lookup_fails :: "world \<Rightarrow> bool" where
  "connection_lookup_fails w =
     (case get_agent_connection w of Inr (PDict ci) \<Rightarrow> False | _ \<Rightarrow> True)"

text \<open>Does the connection lookup succeed and report the device online (line 104)?\<close>

definition reports_online :: "world \<Rightarrow> bool" where
  "reports_online w =
     (case get_agent_connection w of
        Inr (PDict ci) \<Rightarrow> dict_get ci ''determination'' = PStr ''online''
      | _ \<Rightarrow> False)"

text \<open>
  Successive schedule ticks: each invocation starts from the state the one before left,
  whether that one ended normally or in an exception.
\<close>

fun run_ticks :: "pylib \<Rightarrow> config \<Rightarrow> world list \<Rightarrow> state \<Rightarrow> state" where
  "run_ticks lib cfg [] s = s"
| "run_ticks lib cfg (w # ws) s = run_ticks lib cfg ws (fst (on_schedule lib cfg w s))"

section \<open>Sample inputs\<close>

text \<open>
  A library that answers as Python does on the values the examples below use: the
  instants 00:00, 00:10, 00:31, 00:41 and 01:32 (UTC) of 1 January 2026, a few numbers,
  and the empty dictionary for \<^verbatim>\<open>json.dumps\<close>. The examples never reach
  \<open>format_field\<close>.
\<close>

definition sample_lib :: pylib where
  "sample_lib =
     \<lparr>str_other = (\<lambda>v. case v of
          PInt n \<Rightarrow> (if n = 31 then ''31'' else if n = 92 then ''92'' else if n = 100 then ''100''
                     else if n = 200 then ''200'' else ''?'')
        | PFloat f \<Rightarrow> (if f = Fin 150 then ''150.0'' else ''?'')
        | _ \<Rightarrow> ''?''),
      float_of_str = (\<lambda>x. if x = ''150'' then Inr (Fin 150) else Inl ValueError),
      float_of_int = (\<lambda>n. Inr (Fin (of_int n))),
      float_add = (\<lambda>a b. case (a, b) of (Fin p, Fin q) \<Rightarrow> Fin (p + q) | _ \<Rightarrow> a),
      fromisoformat = (\<lambda>x.
          if x = ''2026-01-01T00:00:00+00:00'' then Inr (Aware 1767225600000000)
          else if x = ''2026-01-01T00:10:00+00:00'' then Inr (Aware 1767226200000000)
          else if x = ''2026-01-01T00:31:00+00:00'' then Inr (Aware 1767227460000000)
          else if x = ''2026-01-01T00:41:00+00:00'' then Inr (Aware 1767228060000000)
          else if x = ''2026-01-01T01:32:00+00:00'' then Inr (Aware 1767231120000000)
          else Inl ValueError),
      fromtimestamp = (\<lambda>v. case v of PInt n \<Rightarrow> Inr (n * 1000000) | _ \<Rightarrow> Inl TypeError),
      isoformat = (\<lambda>t.
          if t = 1767225600000000 then ''2026-01-01T00:00:00+00:00''
          else if t = 1767226200000000 then ''2026-01-01T00:10:00+00:00''
          else if t = 1767227460000000 then ''2026-01-01T00:31:00+00:00''
          else if t = 1767228060000000 then ''2026-01-01T00:41:00+00:00''
          else if t = 1767231120000000 then ''2026-01-01T01:32:00+00:00''
          else ''?''),
      json_dumps = (\<lambda>v. ''{}''),
      format_field = (\<lambda>f kw. Inl ValueError)\<rparr>"

definition sample_rule :: threshold_config where
  "sample_rule =
     \<lparr>tag_name = Some ''temp'', upper_limit = PInt 100, lower_limit = PInt 200,
      alert_message = None, cooldown_minutes = None\<rparr>"

definition sample_config :: config where
  "sample_config =
     \<lparr>slack_webhook_url = Some ''https://hooks.slack.com/services/T/B/X'',
      slack_channel = [],
      slack_username = ''Doover Alerts'',
      channel_alerts_enabled = True,
      channel_message_template = ''New message on {channel} from {device}: {data}'',
      offline_alerts_enabled = True,
      offline_threshold_minutes = 30,
      offline_reminder_interval_minutes = 60,
      threshold_alerts_enabled = True,
      tag_thresholds = [sample_rule],
      include_device_name = True,
      request_timeout_seconds = 30\<rparr>"

definition sample_world :: world where
  "sample_world =
     \<lparr>now = 1767227460000000,
      agent_id = ''4711'',
      get_agent_connection =
        Inr (PDict [(''online_at'', PStr ''2026-01-01T00:00:00Z''), (''determination'', PStr ''offline'')]),
      get_agent = Inr (PDict [(''name'', PStr ''pump-7'')]),
      tag_values_aggregate = Inr (PDict [(''temp'', PInt 150)]),
      http_post = (\<lambda>p. Status 200)\<rparr>"

definition stale_state :: state where
  "stale_state =
     \<lparr>tags = [''offline_alert_sent'' \<mapsto> PBool True,
              ''last_offline_reminder'' \<mapsto> PStr ''2026-01-01T00:00:00+00:00''],
      posts = []\<rparr>"

definition online_world :: world where
  "online_world =
     sample_world\<lparr>get_agent_connection :=
       Inr (PDict [(''online_at'', PInt 1767227400), (''determination'', PStr ''online'')])\<rparr>"

definition early_world :: world where
  "early_world = sample_world\<lparr>now := 1767226200000000\<rparr>"

definition later_world :: world where
  "later_world = sample_world\<lparr>now := 1767231120000000\<rparr>"

definition fresh_state :: state where
  "fresh_state = \<lparr>tags = Map.empty, posts = []\<rparr>"

definition alerted_state :: state where
  "alerted_state =
     \<lparr>tags = [''offline_alert_sent'' \<mapsto> PBool True,
              ''last_offline_reminder'' \<mapsto> PStr ''2026-01-01T00:31:00+00:00''],
      posts = []\<rparr>"

definition broken_rule :: threshold_config where
  "broken_rule =
     \<lparr>tag_name = Some ''pressure'', upper_limit = PInt 100, lower_limit = PNone,
      alert_message = Some ''{tag} above {max}'', cooldown_minutes = None\<rparr>"

definition two_tag_world :: world where
  "two_tag_world =
     sample_world\<lparr>tag_values_aggregate :=
       Inr (PDict [(''pressure'', PInt 150), (''temp'', PInt 150)])\<rparr>"








section \<open>Frame properties\<close>

lemmas sample_defs =
  sample_lib_def sample_config_def sample_world_def sample_rule_def stale_state_def
  online_world_def early_world_def later_world_def fresh_state_def alerted_state_def

lemmas time_defs =
  elapsed_since_def parse_time_def replace_Z_def minutes_def dict_get_def get_tag_def
  webhook_set_def

lemmas run_defs =
  on_message_create_def channel_kwargs_def get_device_name_def py_format_def render_field_def
  plain_name_def py_str_def check_tag_thresholds_def threshold_rule_def check_limits_def
  in_cooldown_def threshold_alert_def alert_kwargs_def rule_template_def rule_cooldown_def
  py_float_def py_gt_def py_lt_def as_number_def send_slack_message_def make_payload_def
  increment_stat_def py_add1_def trunc_div_def update_error_def set_tag_def

lemma tags_set_tag [simp]: "tags (set_tag k v s) = (tags s)(k \<mapsto> v)"
  by (simp add: set_tag_def)

lemma posts_set_tag [simp]: "posts (set_tag k v s) = posts s"
  by (simp add: set_tag_def)

lemma posts_update_error [simp]: "posts (update_error lib w err s) = posts s"
  by (simp add: update_error_def)

lemma tags_update_error:
  "k \<noteq> ''last_error'' \<Longrightarrow> k \<noteq> ''last_error_at'' \<Longrightarrow> tags (update_error lib w err s) k = tags s k"
  by (simp add: update_error_def)

lemma posts_increment_stat [simp]: "posts (increment_stat lib w n s) = posts s"
  by (simp add: increment_stat_def split: sum.splits)

lemma tags_increment_stat:
  "k \<noteq> n \<Longrightarrow> k \<noteq> n @ ''_last'' \<Longrightarrow> tags (increment_stat lib w n s) k = tags s k"
  by (simp add: increment_stat_def split: sum.splits)

lemma posts_send_slack_message:
  "posts (send_slack_message lib cfg w txt ttl col s) =
     (if webhook_set cfg then posts s @ [make_payload cfg w txt ttl col] else posts s)"
  by (simp add: send_slack_message_def Let_def split: response.splits)

lemma tags_send_slack_message:
  "k \<noteq> ''last_error'' \<Longrightarrow> k \<noteq> ''last_error_at'' \<Longrightarrow>
   tags (send_slack_message lib cfg w txt ttl col s) k = tags s k"
  by (simp add: send_slack_message_def Let_def tags_update_error split: response.splits)

lemma att_title_make_payload [simp]: "att_title (make_payload cfg w txt ttl col) = ttl"
  by (simp add: make_payload_def)

lemma threshold_alert_frame:
  assumes "threshold_alert lib cfg w tmpl tn x lm dev ttl col s = (s', r)"
    and "ttl \<noteq> ''Device Offline Alert''"
  shows "offline_posts s' = offline_posts s"
    and "offline_key k \<Longrightarrow> tags s' k = tags s k"
  using assms
  by (auto simp: threshold_alert_def offline_posts_def offline_key_def posts_send_slack_message
      tags_increment_stat tags_send_slack_message split: sum.splits)

lemma check_limits_frame:
  assumes "check_limits lib cfg w dev r tn x s = (s', res)"
  shows "offline_posts s' = offline_posts s"
    and "offline_key k \<Longrightarrow> tags s' k = tags s k"
  using assms
  by (auto simp: check_limits_def Let_def split: sum.splits bool.splits if_splits
      dest: threshold_alert_frame)

lemma threshold_rule_frame:
  assumes "threshold_rule lib cfg w tv dev r s = (s', res)"
  shows "offline_posts s' = offline_posts s"
    and "offline_key k \<Longrightarrow> tags s' k = tags s k"
  using assms
  by (auto simp: threshold_rule_def Let_def split: option.splits pyval.splits sum.splits if_splits
      dest: check_limits_frame)

lemma thresholds_loop_frame:
  "thresholds_loop lib cfg w tv dev rs s = (s', res) \<Longrightarrow>
   offline_posts s' = offline_posts s \<and> (\<forall>k. offline_key k \<longrightarrow> tags s' k = tags s k)"
proof (induction rs arbitrary: s)
  case Nil
  then show ?case by simp
next
  case (Cons r rs)
  obtain s1 r1 where step: "threshold_rule lib cfg w tv dev r s = (s1, r1)"
    by (cases "threshold_rule lib cfg w tv dev r s")
  have fr: "offline_posts s1 = offline_posts s" "\<And>k. offline_key k \<Longrightarrow> tags s1 k = tags s k"
    using threshold_rule_frame [OF step] by auto
  show ?case
  proof (cases r1)
    case None
    with Cons.prems step have "thresholds_loop lib cfg w tv dev rs s1 = (s', res)" by simp
    from Cons.IH [OF this] fr show ?thesis by simp
  next
    case (Some e)
    with Cons.prems step have "s' = s1" by simp
    with fr show ?thesis by simp
  qed
qed

lemma check_tag_thresholds_frame:
  "check_tag_thresholds lib cfg w s = (s', res) \<Longrightarrow>
   offline_posts s' = offline_posts s \<and> (\<forall>k. offline_key k \<longrightarrow> tags s' k = tags s k)"
  by (auto simp: check_tag_thresholds_def split: if_splits sum.splits dest: thresholds_loop_frame)

lemma on_schedule_frame:
  assumes "check_offline_status lib cfg w s = (s1, r1)"
    and "webhook_set cfg" "offline_alerts_enabled cfg"
  shows "offline_posts (fst (on_schedule lib cfg w s)) = offline_posts s1"
    and "offline_key k \<Longrightarrow> tags (fst (on_schedule lib cfg w s)) k = tags s1 k"
proof -
  obtain s2 r2 where t: "check_tag_thresholds lib cfg w s1 = (s2, r2)"
    by (cases "check_tag_thresholds lib cfg w s1")
  have e: "fst (on_schedule lib cfg w s) = s1 \<or> fst (on_schedule lib cfg w s) = s2"
    using assms t by (auto simp: on_schedule_def split: option.splits)
  from check_tag_thresholds_frame [OF t] e
  show "offline_posts (fst (on_schedule lib cfg w s)) = offline_posts s1"
    and "offline_key k \<Longrightarrow> tags (fst (on_schedule lib cfg w s)) k = tags s1 k"
    by auto
qed

lemma send_offline_alert_effect:
  assumes "webhook_set cfg"
  shows "offline_posts (send_offline_alert lib cfg w msg s) =
           offline_posts s @ [make_payload cfg w msg ''Device Offline Alert'' ''#ff0000'']"
    and "tags (send_offline_alert lib cfg w msg s) ''offline_alert_sent'' = Some (PBool True)"
    and "tags (send_offline_alert lib cfg w msg s) ''last_offline_reminder'' =
           Some (PStr (isoformat lib (now w)))"
  using assms
  by (simp_all add: send_offline_alert_def offline_posts_def posts_send_slack_message
      tags_increment_stat)

lemma on_schedule_frame_any:
  assumes "check_offline_status lib cfg w s = (s1, r1)"
  shows "offline_posts (fst (on_schedule lib cfg w s)) = offline_posts s1 \<or>
         offline_posts (fst (on_schedule lib cfg w s)) = offline_posts s"
    and "offline_key k \<Longrightarrow> tags (fst (on_schedule lib cfg w s)) k = tags s1 k \<or>
         tags (fst (on_schedule lib cfg w s)) k = tags s k"
proof -
  obtain s2 r2 where t: "check_tag_thresholds lib cfg w s1 = (s2, r2)"
    by (cases "check_tag_thresholds lib cfg w s1")
  obtain s3 r3 where u: "check_tag_thresholds lib cfg w s = (s3, r3)"
    by (cases "check_tag_thresholds lib cfg w s")
  have e: "fst (on_schedule lib cfg w s) \<in> {s, s1, s2, s3}"
    using assms t u by (auto simp: on_schedule_def split: option.splits)
  from check_tag_thresholds_frame [OF t] check_tag_thresholds_frame [OF u] e
  show "offline_posts (fst (on_schedule lib cfg w s)) = offline_posts s1 \<or>
         offline_posts (fst (on_schedule lib cfg w s)) = offline_posts s"
    and "offline_key k \<Longrightarrow> tags (fst (on_schedule lib cfg w s)) k = tags s1 k \<or>
         tags (fst (on_schedule lib cfg w s)) k = tags s k"
    by auto
qed

lemma no_reminder_offline_check:
  assumes "\<not> reports_online w"
    and "offline_reminder_interval_minutes cfg = 0"
    and "truthy (get_tag s ''offline_alert_sent'' (PBool False))"
  shows "fst (check_offline_status lib cfg w s) = s"
  using assms
  by (auto simp: check_offline_status_def reports_online_def offline_alert_stage_def Let_def
      split: sum.splits pyval.splits option.splits)

lemma no_reminder_tick:
  assumes "\<not> reports_online w"
    and "offline_reminder_interval_minutes cfg = 0"
    and "truthy (get_tag s ''offline_alert_sent'' (PBool False))"
  shows "offline_posts (fst (on_schedule lib cfg w s)) = offline_posts s"
    and "truthy (get_tag (fst (on_schedule lib cfg w s)) ''offline_alert_sent'' (PBool False))"
proof -
  have c: "check_offline_status lib cfg w s = (s, snd (check_offline_status lib cfg w s))"
    using no_reminder_offline_check [OF assms, of lib]
    by (metis prod.collapse)
  from on_schedule_frame_any(1) [OF c]
  show "offline_posts (fst (on_schedule lib cfg w s)) = offline_posts s" by simp
  from on_schedule_frame_any(2) [OF c, of "''offline_alert_sent''"]
  have "tags (fst (on_schedule lib cfg w s)) ''offline_alert_sent'' = tags s ''offline_alert_sent''"
    by (simp add: offline_key_def)
  with assms(3)
  show "truthy (get_tag (fst (on_schedule lib cfg w s)) ''offline_alert_sent'' (PBool False))"
    by (simp add: get_tag_def)
qed

lemma no_reminder_ticks:
  assumes "offline_reminder_interval_minutes cfg = 0"
  shows "truthy (get_tag s ''offline_alert_sent'' (PBool False)) \<Longrightarrow>
         \<forall>w \<in> set ws. \<not> reports_online w \<Longrightarrow>
         offline_posts (run_ticks lib cfg ws s) = offline_posts s"
proof (induction ws arbitrary: s)
  case Nil
  then show ?case by simp
next
  case (Cons w ws)
  from Cons.prems have off: "\<not> reports_online w" and rest: "\<forall>w \<in> set ws. \<not> reports_online w"
    by simp_all
  note tick = no_reminder_tick [OF off assms Cons.prems(1), of lib]
  from Cons.IH [OF tick(2) rest] tick(1) show ?case by simp
qed

lemma reminder_tick:
  assumes "webhook_set cfg" and "offline_alerts_enabled cfg"
    and "get_agent_connection w = Inr (PDict ci)"
    and "dict_get ci ''determination'' \<noteq> PStr ''online''"
    and "truthy (dict_get ci ''online_at'')"
    and "elapsed_since lib (now w) (dict_get ci ''online_at'') = Inr d"
    and "d \<ge> minutes (offline_threshold_minutes cfg)"
    and "truthy (get_tag s ''offline_alert_sent'' (PBool False))"
    and "offline_reminder_interval_minutes cfg > 0 \<and> truthy (get_tag s ''last_offline_reminder'' PNone)
         \<longrightarrow> elapsed_since lib (now w) (get_tag s ''last_offline_reminder'' PNone) = Inr since"
  shows "offline_posts (fst (on_schedule lib cfg w s)) =
           offline_posts s @
             (if offline_reminder_interval_minutes cfg > 0
                 \<and> truthy (get_tag s ''last_offline_reminder'' PNone)
                 \<and> since \<ge> minutes (offline_reminder_interval_minutes cfg)
              then [make_payload cfg w
                     (''Device *'' @ py_str lib (get_device_name lib cfg w)
                        @ ''* is still offline (duration: ''
                        @ py_str lib (PInt (trunc_div d 60000000)) @ '' minutes)'')
                     ''Device Offline Alert'' ''#ff0000'']
              else [])"
proof -
  let ?fire = "offline_reminder_interval_minutes cfg > 0
                 \<and> truthy (get_tag s ''last_offline_reminder'' PNone)
                 \<and> since \<ge> minutes (offline_reminder_interval_minutes cfg)"
  let ?msg = "''Device *'' @ py_str lib (get_device_name lib cfg w)
                        @ ''* is still offline (duration: ''
                        @ py_str lib (PInt (trunc_div d 60000000)) @ '' minutes)''"
  have c: "check_offline_status lib cfg w s =
             ((if ?fire then send_offline_alert lib cfg w ?msg s else s), None)"
    using assms
    by (auto simp: check_offline_status_def offline_duration_def offline_alert_stage_def Let_def)
  show ?thesis
    using on_schedule_frame(1) [OF c assms(1,2)] send_offline_alert_effect(1) [OF assms(1)]
    by simp
qed

subsection \<open>One threshold rule\<close>

lemma threshold_alert_effect:
  assumes "webhook_set cfg"
    and "py_format lib tmpl (alert_kwargs tn x lm dev) = Inr message"
  shows "snd (threshold_alert lib cfg w tmpl tn x lm dev ttl col s) = None"
    and "posts (fst (threshold_alert lib cfg w tmpl tn x lm dev ttl col s)) =
           posts s @ [make_payload cfg w message ttl col]"
    and "tags (fst (threshold_alert lib cfg w tmpl tn x lm dev ttl col s)) (''threshold_cooldown_'' @ tn)
           = Some (PStr (isoformat lib (now w)))"
  using assms
  by (simp_all add: threshold_alert_def posts_send_slack_message tags_increment_stat)






subsection \<open>Two ticks with one rule\<close>







subsection \<open>Two ticks with several rules on one tag\<close>








subsection \<open>Formatting errors\<close>










section \<open>The schedule tick without a webhook, and a failing connection lookup\<close>

text \<open>
  C10. When the webhook URL is unset or empty, \<^verbatim>\<open>on_schedule\<close> returns at once:
  the state is the one it was given, whatever the connection lookup would have said,
  so a stale offline flag stays as it is.
\<close>

theorem no_webhook_no_checks:
  "\<not> webhook_set cfg \<Longrightarrow> on_schedule lib cfg w s = (s, None)"
  by (simp add: on_schedule_def)

theorem no_webhook_no_checks_witness:
  "\<not> webhook_set (sample_config\<lparr>slack_webhook_url := Some []\<rparr>) \<and>
   on_schedule sample_lib (sample_config\<lparr>slack_webhook_url := Some []\<rparr>)
     (sample_world\<lparr>get_agent_connection :=
        Inr (PDict [(''online_at'', PInt 1767227400), (''determination'', PStr ''online'')])\<rparr>)
     stale_state = (stale_state, None) \<and>
   tags stale_state ''offline_alert_sent'' = Some (PBool True)"
  using no_webhook_no_checks [of "sample_config\<lparr>slack_webhook_url := Some []\<rparr>" sample_lib
      "sample_world\<lparr>get_agent_connection :=
        Inr (PDict [(''online_at'', PInt 1767227400), (''determination'', PStr ''online'')])\<rparr>"
      stale_state]
  by (simp add: webhook_set_def sample_config_def stale_state_def)

text \<open>
  C9. When the connection lookup fails, the offline check returns normally with the
  state untouched: no post, no tag written. The tick goes on to the threshold check
  from that same state.
\<close>

theorem lookup_failure_skips_offline_check:
  assumes "connection_lookup_fails w"
  shows "check_offline_status lib cfg w s = (s, None) \<and>
         on_schedule lib cfg w s =
           (if webhook_set cfg \<and> threshold_alerts_enabled cfg then check_tag_thresholds lib cfg w s
            else (s, None))"
  using assms
  by (auto simp: connection_lookup_fails_def check_offline_status_def on_schedule_def
      split: sum.splits pyval.splits)

theorem lookup_failure_skips_offline_check_witness:
  "connection_lookup_fails (sample_world\<lparr>get_agent_connection := Inl (OtherError ''timed out'')\<rparr>) \<and>
   check_offline_status sample_lib sample_config
     (sample_world\<lparr>get_agent_connection := Inl (OtherError ''timed out'')\<rparr>) stale_state
     = (stale_state, None)"
  using lookup_failure_skips_offline_check
      [of "sample_world\<lparr>get_agent_connection := Inl (OtherError ''timed out'')\<rparr>"
        sample_lib sample_config stale_state]
  by (simp add: connection_lookup_fails_def sample_world_def)

section \<open>The offline check\<close>

text \<open>
  C1. On a schedule tick on which the offline check runs (webhook set, offline alerts
  enabled) and the connection lookup reports \<^verbatim>\<open>determination == "online"\<close>, the tick
  ends with \<^verbatim>\<open>offline_alert_sent\<close> stored as \<^verbatim>\<open>False\<close> and
  \<^verbatim>\<open>last_offline_reminder\<close> stored as \<^verbatim>\<open>None\<close>, whatever they were before, and no
  offline alert is posted. This holds for the whole tick: the threshold check that
  follows writes neither tag and posts under other titles, also when it raises.
\<close>

theorem online_resets_offline_state:
  assumes "webhook_set cfg" and "offline_alerts_enabled cfg"
    and "get_agent_connection w = Inr (PDict ci)"
    and "dict_get ci ''determination'' = PStr ''online''"
  shows "tags (fst (on_schedule lib cfg w s)) ''offline_alert_sent'' = Some (PBool False) \<and>
         tags (fst (on_schedule lib cfg w s)) ''last_offline_reminder'' = Some PNone \<and>
         offline_posts (fst (on_schedule lib cfg w s)) = offline_posts s"
proof -
  let ?s1 = "set_tag ''last_offline_reminder'' PNone (set_tag ''offline_alert_sent'' (PBool False) s)"
  have c: "check_offline_status lib cfg w s = (?s1, None)"
    using assms by (simp add: check_offline_status_def)
  have "offline_posts ?s1 = offline_posts s"
    by (simp add: offline_posts_def)
  moreover have "tags ?s1 ''offline_alert_sent'' = Some (PBool False)"
    and "tags ?s1 ''last_offline_reminder'' = Some PNone"
    by simp_all
  ultimately show ?thesis
    using on_schedule_frame [OF c assms(1,2)] by (simp add: offline_key_def)
qed

theorem online_resets_offline_state_witness:
  "webhook_set sample_config \<and> offline_alerts_enabled sample_config \<and>
   get_agent_connection online_world =
     Inr (PDict [(''online_at'', PInt 1767227400), (''determination'', PStr ''online'')]) \<and>
   tags stale_state ''offline_alert_sent'' = Some (PBool True) \<and>
   tags (fst (on_schedule sample_lib sample_config online_world stale_state)) ''offline_alert_sent''
     = Some (PBool False) \<and>
   tags (fst (on_schedule sample_lib sample_config online_world stale_state)) ''last_offline_reminder''
     = Some PNone \<and>
   offline_posts (fst (on_schedule sample_lib sample_config online_world stale_state)) = []"
  using online_resets_offline_state [of sample_config online_world
      "[(''online_at'', PInt 1767227400), (''determination'', PStr ''online'')]"
      sample_lib stale_state]
  by (simp add: sample_defs time_defs offline_posts_def)

text \<open>
  C3. On a tick on which the device is offline, the last-online timestamp is present
  and the time elapsed since it is strictly below \<^verbatim>\<open>offline_threshold_minutes\<close>, the
  offline check returns with the state untouched, and at the end of the tick no offline
  alert has been posted and the two offline tags are as they were.
\<close>

theorem debounce_window_silent:
  assumes "webhook_set cfg" and "offline_alerts_enabled cfg"
    and "get_agent_connection w = Inr (PDict ci)"
    and "dict_get ci ''determination'' \<noteq> PStr ''online''"
    and "truthy (dict_get ci ''online_at'')"
    and "elapsed_since lib (now w) (dict_get ci ''online_at'') = Inr d"
    and "d < minutes (offline_threshold_minutes cfg)"
  shows "check_offline_status lib cfg w s = (s, None) \<and>
         offline_posts (fst (on_schedule lib cfg w s)) = offline_posts s \<and>
         tags (fst (on_schedule lib cfg w s)) ''offline_alert_sent'' = tags s ''offline_alert_sent'' \<and>
         tags (fst (on_schedule lib cfg w s)) ''last_offline_reminder'' = tags s ''last_offline_reminder''"
proof -
  have c: "check_offline_status lib cfg w s = (s, None)"
    using assms by (simp add: check_offline_status_def offline_duration_def)
  show ?thesis
    using c on_schedule_frame [OF c assms(1,2)] by (simp add: offline_key_def)
qed

theorem debounce_window_silent_witness:
  "webhook_set sample_config \<and> offline_alerts_enabled sample_config \<and>
   elapsed_since sample_lib (now early_world) (PStr ''2026-01-01T00:00:00Z'') = Inr 600000000 \<and>
   600000000 < minutes (offline_threshold_minutes sample_config) \<and>
   check_offline_status sample_lib sample_config early_world fresh_state = (fresh_state, None) \<and>
   offline_posts (fst (on_schedule sample_lib sample_config early_world fresh_state)) = [] \<and>
   tags (fst (on_schedule sample_lib sample_config early_world fresh_state)) ''offline_alert_sent''
     = None"
  using debounce_window_silent [of sample_config early_world
      "[(''online_at'', PStr ''2026-01-01T00:00:00Z''), (''determination'', PStr ''offline'')]"
      sample_lib 600000000 fresh_state]
  by (simp add: sample_defs time_defs offline_posts_def)

text \<open>
  C4. On a tick on which the device has been offline for at least
  \<^verbatim>\<open>offline_threshold_minutes\<close> and the stored \<^verbatim>\<open>offline_alert_sent\<close> is false
  or missing, exactly one offline alert is posted, with the text
  \<^verbatim>\<open>Device *name* has gone offline\<close>; afterwards \<^verbatim>\<open>offline_alert_sent\<close> is
  \<^verbatim>\<open>True\<close> and \<^verbatim>\<open>last_offline_reminder\<close> is the current time.
\<close>

theorem first_offline_alert:
  assumes "webhook_set cfg" and "offline_alerts_enabled cfg"
    and "get_agent_connection w = Inr (PDict ci)"
    and "dict_get ci ''determination'' \<noteq> PStr ''online''"
    and "truthy (dict_get ci ''online_at'')"
    and "elapsed_since lib (now w) (dict_get ci ''online_at'') = Inr d"
    and "d \<ge> minutes (offline_threshold_minutes cfg)"
    and "\<not> truthy (get_tag s ''offline_alert_sent'' (PBool False))"
  shows "offline_posts (fst (on_schedule lib cfg w s)) =
           offline_posts s @
             [make_payload cfg w
                (''Device *'' @ py_str lib (get_device_name lib cfg w) @ ''* has gone offline'')
                ''Device Offline Alert'' ''#ff0000''] \<and>
         tags (fst (on_schedule lib cfg w s)) ''offline_alert_sent'' = Some (PBool True) \<and>
         tags (fst (on_schedule lib cfg w s)) ''last_offline_reminder'' =
           Some (PStr (isoformat lib (now w)))"
proof -
  let ?msg = "''Device *'' @ py_str lib (get_device_name lib cfg w) @ ''* has gone offline''"
  have c: "check_offline_status lib cfg w s = (send_offline_alert lib cfg w ?msg s, None)"
    using assms
    by (simp add: check_offline_status_def offline_duration_def offline_alert_stage_def Let_def)
  show ?thesis
    using on_schedule_frame [OF c assms(1,2)] send_offline_alert_effect [OF assms(1)]
    by (simp add: offline_key_def)
qed

theorem first_offline_alert_witness:
  "webhook_set sample_config \<and> offline_alerts_enabled sample_config \<and>
   elapsed_since sample_lib (now sample_world) (PStr ''2026-01-01T00:00:00Z'') = Inr 1860000000 \<and>
   1860000000 \<ge> minutes (offline_threshold_minutes sample_config) \<and>
   \<not> truthy (get_tag fresh_state ''offline_alert_sent'' (PBool False)) \<and>
   map att_text (offline_posts (fst (on_schedule sample_lib sample_config sample_world fresh_state)))
     = [''Device *pump-7* has gone offline''] \<and>
   tags (fst (on_schedule sample_lib sample_config sample_world fresh_state)) ''offline_alert_sent''
     = Some (PBool True) \<and>
   tags (fst (on_schedule sample_lib sample_config sample_world fresh_state)) ''last_offline_reminder''
     = Some (PStr ''2026-01-01T00:31:00+00:00'')"
  using first_offline_alert [of sample_config sample_world
      "[(''online_at'', PStr ''2026-01-01T00:00:00Z''), (''determination'', PStr ''offline'')]"
      sample_lib 1860000000 fresh_state]
  by (simp add: sample_defs time_defs offline_posts_def make_payload_def get_device_name_def
      py_str_def)

text \<open>
  C5. On a tick on which the device has been offline for at least the threshold and
  \<^verbatim>\<open>offline_alert_sent\<close> is already true, a reminder is posted if and only if
  \<^verbatim>\<open>offline_reminder_interval_minutes > 0\<close>, \<^verbatim>\<open>last_offline_reminder\<close> is set, and
  the time since it is at least the interval; then it is exactly one post. With an
  interval of 0, over any number of ticks on which the device is not reported online,
  starting from a state where the alert has been sent, no offline alert is posted.
\<close>

theorem reminder_iff_interval_elapsed:
  "(webhook_set cfg \<and> offline_alerts_enabled cfg
      \<and> get_agent_connection w = Inr (PDict ci)
      \<and> dict_get ci ''determination'' \<noteq> PStr ''online''
      \<and> truthy (dict_get ci ''online_at'')
      \<and> elapsed_since lib (now w) (dict_get ci ''online_at'') = Inr d
      \<and> d \<ge> minutes (offline_threshold_minutes cfg)
      \<and> truthy (get_tag s ''offline_alert_sent'' (PBool False))
      \<and> (offline_reminder_interval_minutes cfg > 0
            \<and> truthy (get_tag s ''last_offline_reminder'' PNone)
          \<longrightarrow> elapsed_since lib (now w) (get_tag s ''last_offline_reminder'' PNone) = Inr since)
    \<longrightarrow> offline_posts (fst (on_schedule lib cfg w s)) =
           offline_posts s @
             (if offline_reminder_interval_minutes cfg > 0
                 \<and> truthy (get_tag s ''last_offline_reminder'' PNone)
                 \<and> since \<ge> minutes (offline_reminder_interval_minutes cfg)
              then [make_payload cfg w
                     (''Device *'' @ py_str lib (get_device_name lib cfg w)
                        @ ''* is still offline (duration: ''
                        @ py_str lib (PInt (trunc_div d 60000000)) @ '' minutes)'')
                     ''Device Offline Alert'' ''#ff0000'']
              else []))
   \<and> (offline_reminder_interval_minutes cfg0 = 0
        \<and> truthy (get_tag s0 ''offline_alert_sent'' (PBool False))
        \<and> (\<forall>w \<in> set ws. \<not> reports_online w)
      \<longrightarrow> offline_posts (run_ticks lib0 cfg0 ws s0) = offline_posts s0)"
  using reminder_tick [of cfg w ci lib d s since] no_reminder_ticks [of cfg0 s0 ws lib0]
  by blast

theorem reminder_iff_interval_elapsed_witness:
  "webhook_set sample_config \<and> offline_alerts_enabled sample_config \<and>
   elapsed_since sample_lib (now later_world) (PStr ''2026-01-01T00:00:00Z'') = Inr 5520000000 \<and>
   5520000000 \<ge> minutes (offline_threshold_minutes sample_config) \<and>
   truthy (get_tag alerted_state ''offline_alert_sent'' (PBool False)) \<and>
   elapsed_since sample_lib (now later_world) (get_tag alerted_state ''last_offline_reminder'' PNone)
     = Inr 3660000000 \<and>
   3660000000 \<ge> minutes (offline_reminder_interval_minutes sample_config) \<and>
   map att_text (offline_posts (fst (on_schedule sample_lib sample_config later_world alerted_state)))
     = [''Device *pump-7* is still offline (duration: 92 minutes)''] \<and>
   offline_reminder_interval_minutes (sample_config\<lparr>offline_reminder_interval_minutes := 0\<rparr>) = 0 \<and>
   \<not> reports_online sample_world \<and> \<not> reports_online later_world \<and>
   offline_posts (run_ticks sample_lib (sample_config\<lparr>offline_reminder_interval_minutes := 0\<rparr>)
     [sample_world, later_world] alerted_state) = []"
  using reminder_iff_interval_elapsed [of sample_config later_world
      "[(''online_at'', PStr ''2026-01-01T00:00:00Z''), (''determination'', PStr ''offline'')]"
      sample_lib 5520000000 alerted_state 3660000000
      "sample_config\<lparr>offline_reminder_interval_minutes := 0\<rparr>" alerted_state
      "[sample_world, later_world]" sample_lib]
  by (simp add: sample_defs time_defs offline_posts_def make_payload_def get_device_name_def
      py_str_def reports_online_def trunc_div_def)

section \<open>The threshold check\<close>

text \<open>
  C6, as the claim states it, fails for a rule whose alert text does not format: the
  value is numeric, the rule is not in cooldown, the upper limit is set and exceeded,
  and yet nothing is posted and no cooldown tag is written, because
  \<^verbatim>\<open>message_template.format\<close> raises at line 220.
\<close>

theorem broken_template_no_high_alert:
  "py_float sample_lib (dict_get [(''pressure'', PInt 150), (''temp'', PInt 150)] ''pressure'')
     = Inr (Fin 150) \<and>
   in_cooldown sample_lib two_tag_world (''threshold_cooldown_'' @ ''pressure'')
     (rule_cooldown broken_rule) fresh_state = Inr False \<and>
   py_gt (Fin 150) (upper_limit broken_rule) = Inr True \<and>
   threshold_rule sample_lib sample_config two_tag_world
     (PDict [(''pressure'', PInt 150), (''temp'', PInt 150)]) (PStr ''pump-7'')
     broken_rule fresh_state = (fresh_state, Some (KeyError ''max'')) \<and>
   posts fresh_state = [] \<and> tags fresh_state ''threshold_cooldown_pressure'' = None"
  by (simp add: sample_defs time_defs run_defs broken_rule_def two_tag_world_def)

text \<open>
  C6, amended. A rule whose tag has a numeric value, that is not in its cooldown period, whose
  upper limit is set and exceeded, and whose alert text formats, makes exactly one post,
  titled \<^verbatim>\<open>Threshold Alert: High Value\<close>, with the limit rendered as \<^verbatim>\<open>>\<close>
  followed by the upper limit; it writes the current time under the cooldown key of
  the tag and returns normally. The lower limit plays no part, whatever it is.
\<close>

theorem upper_limit_alert_takes_priority:
  assumes "webhook_set cfg"
    and "tag_name r = Some tn" and "tn \<noteq> []"
    and "dict_get kv tn \<noteq> PNone"
    and "py_float lib (dict_get kv tn) = Inr x"
    and "in_cooldown lib w (''threshold_cooldown_'' @ tn) (rule_cooldown r) s = Inr False"
    and "upper_limit r \<noteq> PNone"
    and "py_gt x (upper_limit r) = Inr True"
    and "py_format lib (rule_template r)
           (alert_kwargs tn x (''>'' @ py_str lib (upper_limit r)) dev) = Inr message"
  shows "snd (threshold_rule lib cfg w (PDict kv) dev r s) = None \<and>
         posts (fst (threshold_rule lib cfg w (PDict kv) dev r s)) =
           posts s @ [make_payload cfg w message ''Threshold Alert: High Value'' ''#ff9900''] \<and>
         tags (fst (threshold_rule lib cfg w (PDict kv) dev r s)) (''threshold_cooldown_'' @ tn)
           = Some (PStr (isoformat lib (now w)))"
proof -
  have "threshold_rule lib cfg w (PDict kv) dev r s =
          threshold_alert lib cfg w (rule_template r) tn x (''>'' @ py_str lib (upper_limit r)) dev
            ''Threshold Alert: High Value'' ''#ff9900'' s"
    using assms(2-8) by (simp add: threshold_rule_def check_limits_def Let_def)
  with threshold_alert_effect [OF assms(1) assms(9)] show ?thesis by simp
qed

theorem upper_limit_alert_takes_priority_witness:
  "webhook_set sample_config \<and>
   tag_name sample_rule = Some ''temp'' \<and>
   dict_get [(''temp'', PInt 150)] ''temp'' \<noteq> PNone \<and>
   py_float sample_lib (dict_get [(''temp'', PInt 150)] ''temp'') = Inr (Fin 150) \<and>
   in_cooldown sample_lib sample_world (''threshold_cooldown_'' @ ''temp'')
     (rule_cooldown sample_rule) fresh_state = Inr False \<and>
   upper_limit sample_rule = PInt 100 \<and> py_gt (Fin 150) (upper_limit sample_rule) = Inr True \<and>
   lower_limit sample_rule = PInt 200 \<and> py_lt (Fin 150) (lower_limit sample_rule) = Inr True \<and>
   py_format sample_lib (rule_template sample_rule)
     (alert_kwargs ''temp'' (Fin 150) (''>'' @ py_str sample_lib (upper_limit sample_rule))
        (PStr ''pump-7''))
     = Inr ''temp is 150.0 (threshold: >100) on pump-7'' \<and>
   snd (threshold_rule sample_lib sample_config sample_world (PDict [(''temp'', PInt 150)])
          (PStr ''pump-7'') sample_rule fresh_state) = None \<and>
   posts (fst (threshold_rule sample_lib sample_config sample_world (PDict [(''temp'', PInt 150)])
          (PStr ''pump-7'') sample_rule fresh_state)) =
     [make_payload sample_config sample_world ''temp is 150.0 (threshold: >100) on pump-7''
        ''Threshold Alert: High Value'' ''#ff9900''] \<and>
   tags (fst (threshold_rule sample_lib sample_config sample_world (PDict [(''temp'', PInt 150)])
          (PStr ''pump-7'') sample_rule fresh_state)) ''threshold_cooldown_temp''
     = Some (PStr ''2026-01-01T00:31:00+00:00'')"
  using upper_limit_alert_takes_priority [of sample_config sample_rule "''temp''" "[(''temp'', PInt 150)]" sample_lib "Fin 150"
      sample_world fresh_state "PStr ''pump-7''" "''temp is 150.0 (threshold: >100) on pump-7''"]
  by (simp add: sample_defs time_defs in_cooldown_def rule_cooldown_def rule_template_def
      alert_kwargs_def py_format_def render_field_def plain_name_def py_str_def py_float_def
      py_gt_def py_lt_def as_number_def)




text \<open>
  C8. A rule whose \<^verbatim>\<open>tag_name\<close> is missing or empty, whose tag is not among the
  current values (or is \<^verbatim>\<open>None\<close> there), or whose value \<^verbatim>\<open>float\<close> rejects with
  \<^verbatim>\<open>TypeError\<close> or \<^verbatim>\<open>ValueError\<close>, is skipped: the state is unchanged and no
  exception leaves the rule.
\<close>

theorem malformed_rule_skipped:
  assumes "tag_name r = None \<or> tag_name r = Some [] \<or>
           (\<exists>tn. tag_name r = Some tn \<and>
              (dict_get kv tn = PNone
               \<or> py_float lib (dict_get kv tn) = Inl TypeError
               \<or> py_float lib (dict_get kv tn) = Inl ValueError))"
  shows "threshold_rule lib cfg w (PDict kv) dev r s = (s, None)"
  using assms
  by (auto simp: threshold_rule_def Let_def)


theorem malformed_rule_skipped_witness:
  "tag_name (sample_rule\<lparr>tag_name := Some []\<rparr>) = Some [] \<and>
   threshold_rule sample_lib sample_config sample_world (PDict [(''temp'', PInt 150)])
     (PStr ''pump-7'') (sample_rule\<lparr>tag_name := Some []\<rparr>) fresh_state = (fresh_state, None) \<and>
   dict_get [(''pressure'', PInt 150)] ''temp'' = PNone \<and>
   threshold_rule sample_lib sample_config sample_world (PDict [(''pressure'', PInt 150)])
     (PStr ''pump-7'') sample_rule fresh_state = (fresh_state, None) \<and>
   py_float sample_lib (dict_get [(''temp'', PStr ''n/a'')] ''temp'') = Inl ValueError \<and>
   threshold_rule sample_lib sample_config sample_world (PDict [(''temp'', PStr ''n/a'')])
     (PStr ''pump-7'') sample_rule fresh_state = (fresh_state, None) \<and>
   py_float sample_lib (dict_get [(''temp'', PList [PInt 1])] ''temp'') = Inl TypeError \<and>
   threshold_rule sample_lib sample_config sample_world (PDict [(''temp'', PList [PInt 1])])
     (PStr ''pump-7'') sample_rule fresh_state = (fresh_state, None)"
  using malformed_rule_skipped [of "sample_rule\<lparr>tag_name := Some []\<rparr>" "[(''temp'', PInt 150)]" sample_lib
        sample_config sample_world "PStr ''pump-7''" fresh_state]
    malformed_rule_skipped [of sample_rule "[(''pressure'', PInt 150)]" sample_lib
        sample_config sample_world "PStr ''pump-7''" fresh_state]
    malformed_rule_skipped [of sample_rule "[(''temp'', PStr ''n/a'')]" sample_lib
        sample_config sample_world "PStr ''pump-7''" fresh_state]
    malformed_rule_skipped [of sample_rule "[(''temp'', PList [PInt 1])]" sample_lib
        sample_config sample_world "PStr ''pump-7''" fresh_state]
  by (simp add: sample_rule_def sample_lib_def dict_get_def py_float_def)

section \<open>Template errors\<close>




end
